theory Spec2Isabelle
  imports Main "HOL-Library.Word" "HOL-Library.Signed_Division"
begin

section \<open>The catalog search of gobooklist\<close>

text \<open>
  A shallow embedding of \<^verbatim>\<open>booklist/catalog.go\<close> and of the function
  \<^verbatim>\<open>printSearchResults\<close> of the command line program. The catalog web site, the wall
  clock and Go's URL parser are the environment of the code; they are parameters of the
  model (\<open>env\<close>). The package variables and the requests that went out are the state
  (\<open>world\<close>). Debug logging and console output are left out: no function reads them back.
\<close>

subsection \<open>Data\<close>

text \<open>\<^verbatim>\<open>PublicationInfo\<close>: media type and title of one publication.\<close>

record PublicationInfo =
  pub_Media :: string
  Publication :: string

text \<open>\<^verbatim>\<open>CatalogInfo\<close>; the logger field is left out.\<close>

record CatalogInfo =
  URL :: string
  Author :: string
  Media :: string

text \<open>\<^verbatim>\<open>facetFilter\<close> is a Go \<^verbatim>\<open>map[string]string\<close>.\<close>

type_synonym facetFilter = "string \<rightharpoonup> string"

text \<open>
  \<^verbatim>\<open>searchFilter\<close>, the JSON body of a request. \<open>DbCodes\<close> is a slice that the code
  never sets: \<open>None\<close> is Go's nil slice.
\<close>

record searchFilter =
  AddToHistory :: bool
  DbCodes :: "string list option"
  HitsPerPage :: int
  SortCriteria :: string
  StartIndex :: int
  TargetAudience :: string
  FacetFilters :: "facetFilter list"
  SearchTerm :: string

text \<open>
  A decoded JSON value, as \<^verbatim>\<open>encoding/json\<close> stores it in an \<^verbatim>\<open>interface{}\<close>.
  \<^verbatim>\<open>resourceInfo\<close> is a \<^verbatim>\<open>map[string]interface{}\<close>.
\<close>

datatype jvalue =
  JNull
  | JBool bool
  | JNumber string
  | JString string
  | JArray "jvalue list"
  | JObject "(string \<times> jvalue) list"

type_synonym resourceInfo = "string \<rightharpoonup> jvalue"

text \<open>
  What \<^verbatim>\<open>Decode\<close> stores in the target of a request: the fields \<^verbatim>\<open>success\<close> and
  \<^verbatim>\<open>totalHits\<close> read by \<^verbatim>\<open>publicationsCount\<close>, and \<^verbatim>\<open>resources\<close> read by
  \<^verbatim>\<open>publications\<close>. A field absent from the response has Go's zero value.
\<close>

record payload =
  success :: bool
  totalHits :: int
  resources :: "resourceInfo list"

text \<open>
  The outcome of \<^verbatim>\<open>client.Do\<close> followed by \<^verbatim>\<open>Decode\<close>: the POST failed (connection,
  timeout), or it was answered with a status code and a body that decodes (\<open>Some\<close>)
  or does not (\<open>None\<close>).
\<close>

datatype reply = Failed | Answered nat "payload option"

text \<open>The URL of a request: the string given to \<^verbatim>\<open>url.Parse\<close>, and its \<^verbatim>\<open>RawQuery\<close>.\<close>

record url =
  parsedFrom :: string
  RawQuery :: "(string \<times> string) list"

record request =
  Method :: string
  reqURL :: url
  Header :: "(string \<times> string) list"
  Body :: searchFilter

text \<open>The errors the code builds with \<^verbatim>\<open>fmt.Errorf\<close>, with the values they print.\<close>

datatype error =
  ArgumentsNull string string
  | ParseError string
  | PostFailed url
  | HTTPError url nat
  | DecodeError string
  | CountFailed
  | TooManyPublications int int

text \<open>
  The environment: \<open>yearFilter\<close> is the package variable set once at start;
  \<open>urlParse\<close> tells whether \<^verbatim>\<open>url.Parse\<close> accepts a string; \<open>now k\<close> is the reading
  of \<^verbatim>\<open>time.Now().UTC().UnixNano()\<close> at its \<open>k\<close>-th call; \<open>net i\<close> is the catalog's
  reply to the \<open>i\<close>-th request of the process.
\<close>

record env =
  yearFilter :: string
  urlParse :: "string \<Rightarrow> bool"
  now :: "nat \<Rightarrow> 64 word"
  net :: "nat \<Rightarrow> reply"

text \<open>
  The state: the package variable \<^verbatim>\<open>timestampIncrement\<close> (an \<^verbatim>\<open>int64\<close>, 1 at start),
  the number of clock readings so far, and the requests sent so far, oldest first.
\<close>

record world =
  timestampIncrement :: "64 word"
  clockReads :: nat
  sent :: "request list"

definition maxHitsPerPage :: int where
  "maxHitsPerPage = 30"

subsection \<open>The cache buster\<close>

text \<open>\<^verbatim>\<open>fmt.Sprintf("%d", v)\<close> for an \<^verbatim>\<open>int64\<close>: decimal digits, with a sign.\<close>

fun decimal :: "nat \<Rightarrow> string" where
  "decimal n =
     (if n < 10 then [char_of (48 + n)]
      else decimal (n div 10) @ [char_of (48 + n mod 10)])"

declare decimal.simps [simp del]

definition Sprintf_d :: "64 word \<Rightarrow> string" where
  "Sprintf_d v = (if sint v < 0 then CHR ''-'' # decimal (nat (- sint v)) else decimal (nat (sint v)))"

text \<open>
  \<^verbatim>\<open>makeTimestamp\<close>: the counter is incremented first, the clock is read, the
  nanoseconds are divided by 1000000 (Go's division truncates toward zero), and the sum
  of both is printed. \<open>tokenValue\<close> is the sum that is printed.
\<close>

definition tokenValue :: "env \<Rightarrow> world \<Rightarrow> 64 word" where
  "tokenValue e s =
     (let increment = timestampIncrement s + 1;
          utcTime = now e (clockReads s);
          timestamp = (word_of_int (sint utcTime sdiv 1000000) :: 64 word)
      in timestamp + increment)"

definition makeTimestamp :: "env \<Rightarrow> world \<Rightarrow> string \<times> world" where
  "makeTimestamp e s =
     (Sprintf_d (tokenValue e s),
      s\<lparr>timestampIncrement := timestampIncrement s + 1, clockReads := Suc (clockReads s)\<rparr>)"

subsection \<open>The transport\<close>

text \<open>
  \<^verbatim>\<open>issueRequest\<close>. \<open>Inl\<close> is the error returned; \<open>Inr\<close> is a nil error, with the
  decoded response that the code stores in its target. Encoding the body cannot fail
  for a \<^verbatim>\<open>searchFilter\<close>.
\<close>

definition issueRequest ::
  "env \<Rightarrow> CatalogInfo \<Rightarrow> string \<Rightarrow> facetFilter list \<Rightarrow> world \<Rightarrow> (error + payload) \<times> world" where
  "issueRequest e c endpt filters s =
     (if \<not> urlParse e (URL c @ endpt) then (Inl (ParseError (URL c @ endpt)), s)
      else
        let (token, s1) = makeTimestamp e s;
            u = \<lparr>parsedFrom = URL c @ endpt, RawQuery = [(''_'', token)]\<rparr>;
            search = \<lparr>AddToHistory = True, DbCodes = None, HitsPerPage = maxHitsPerPage,
                      SortCriteria = ''NewlyAdded'', StartIndex = 0, TargetAudience = [],
                      FacetFilters = filters, SearchTerm = Author c\<rparr>;
            req = \<lparr>Method = ''POST'', reqURL = u,
                   Header = [(''X-Requested-With'', ''XMLHttpRequest''),
                             (''Content-Type'', ''application/json; charset=utf-8''),
                             (''Accept'', ''application/json, text/javascript, */*; q=0.01''),
                             (''Accept-Language'', ''en-US,en;q=0.8''),
                             (''Ls2pac-config-type'', ''pac''),
                             (''Ls2pac-config-name'', ''default - Go Live load''),
                             (''Referer'', URL c)],
                   Body = search\<rparr>;
            s2 = s1\<lparr>sent := sent s1 @ [req]\<rparr>
        in case net e (length (sent s1)) of
             Failed \<Rightarrow> (Inl (PostFailed u), s2)
           | Answered status body \<Rightarrow>
               if status \<noteq> 200 then (Inl (HTTPError u status), s2)
               else (case body of
                       None \<Rightarrow> (Inl (DecodeError (URL c)), s2)
                     | Some results \<Rightarrow> (Inr results, s2)))"

text \<open>\<^verbatim>\<open>publicationsCount\<close> returns the pair \<^verbatim>\<open>(int, error)\<close>; \<open>None\<close> is a nil error.\<close>

definition publicationsCount ::
  "env \<Rightarrow> CatalogInfo \<Rightarrow> facetFilter list \<Rightarrow> world \<Rightarrow> (int \<times> error option) \<times> world" where
  "publicationsCount e c filters s =
     (case issueRequest e c ''search/count'' filters s of
        (Inl err, s') \<Rightarrow> ((0, Some err), s')
      | (Inr results, s') \<Rightarrow>
          if \<not> success results then ((0, Some CountFailed), s')
          else ((totalHits results, None), s'))"

text \<open>\<^verbatim>\<open>publications\<close> returns the pair \<^verbatim>\<open>([]resourceInfo, error)\<close>; \<open>[]\<close> is nil.\<close>

definition publications ::
  "env \<Rightarrow> CatalogInfo \<Rightarrow> facetFilter list \<Rightarrow> world \<Rightarrow> (resourceInfo list \<times> error option) \<times> world" where
  "publications e c filters s =
     (case issueRequest e c ''search'' filters s of
        (Inl err, s') \<Rightarrow> (([], Some err), s')
      | (Inr results, s') \<Rightarrow> ((resources results, None), s'))"

subsection \<open>The local filter\<close>

text \<open>The type assertion \<^verbatim>\<open>publication[key].(string)\<close>: the string and \<^verbatim>\<open>ok\<close>.\<close>

fun asString :: "jvalue option \<Rightarrow> string option" where
  "asString (Some (JString v)) = Some v"
| "asString _ = None"

text \<open>
  \<^verbatim>\<open>applyLocalFilters\<close> appends to \<^verbatim>\<open>*filteredResults\<close>; the model returns the new
  list.
\<close>

fun applyLocalFilters ::
  "CatalogInfo \<Rightarrow> resourceInfo list \<Rightarrow> PublicationInfo list \<Rightarrow> PublicationInfo list" where
  "applyLocalFilters c [] filteredResults = filteredResults"
| "applyLocalFilters c (publication # pubs) filteredResults =
     (case asString (publication ''shortAuthor'') of
        None \<Rightarrow> applyLocalFilters c pubs filteredResults
      | Some author \<Rightarrow>
          let format = (case asString (publication ''format'') of
                          None \<Rightarrow> ''Unknown'' | Some v \<Rightarrow> v);
              title = (case asString (publication ''shortTitle'') of
                         None \<Rightarrow> ''Unknown'' | Some v \<Rightarrow> v)
          in if Author c = author
             then applyLocalFilters c pubs
                    (filteredResults @ [\<lparr>pub_Media = format, Publication = title\<rparr>])
             else applyLocalFilters c pubs filteredResults)"

subsection \<open>The search\<close>

text \<open>The two filters built at the head of each round of the loop over the years.\<close>

definition yearFilters :: "CatalogInfo \<Rightarrow> string \<Rightarrow> facetFilter list" where
  "yearFilters c year =
     [[''facetDisplay'' \<mapsto> year, ''facetValue'' \<mapsto> year, ''facetName'' \<mapsto> ''Year''],
      [''facetDisplay'' \<mapsto> Media c, ''facetValue'' \<mapsto> Media c, ''facetName'' \<mapsto> ''Format'']]"

text \<open>
  The inner loop \<^verbatim>\<open>for currentCount < totalCount\<close>. It may run forever, so its value
  is an option: \<open>None\<close> is a loop that never ends. It returns the count, the filtered
  list and the error of the request that stopped it, if any. The counts are Go
  \<^verbatim>\<open>int\<close>s; a response holds far fewer than \<open>2 ^ 63\<close> resources, and they are
  modelled as integers.
\<close>

partial_function (option) fetchLoop ::
  "env \<Rightarrow> CatalogInfo \<Rightarrow> facetFilter list \<Rightarrow> int \<Rightarrow> int \<Rightarrow> PublicationInfo list \<Rightarrow> world
   \<Rightarrow> ((int \<times> PublicationInfo list \<times> error option) \<times> world) option" where
  "fetchLoop e c filters totalCount currentCount filteredPubs s =
     (if currentCount < totalCount then
        (case publications e c filters s of
           ((pubs, Some err), s') \<Rightarrow> Some ((currentCount, filteredPubs, Some err), s')
         | ((pubs, None), s') \<Rightarrow>
             fetchLoop e c filters totalCount (currentCount + int (length pubs))
               (applyLocalFilters c pubs filteredPubs) s')
      else Some ((currentCount, filteredPubs, None), s))"

declare fetchLoop.simps [code]

text \<open>
  The outer loop over the years, from the year at the head of the list on, with the
  results filtered so far. The result is the pair \<^verbatim>\<open>([]PublicationInfo, error)\<close> that
  \<^verbatim>\<open>PublicationSearch\<close> returns; \<open>[]\<close> is the nil slice.
\<close>

fun yearLoop ::
  "env \<Rightarrow> CatalogInfo \<Rightarrow> string list \<Rightarrow> PublicationInfo list \<Rightarrow> world
   \<Rightarrow> ((PublicationInfo list \<times> error option) \<times> world) option" where
  "yearLoop e c [] filteredPubs s = Some ((filteredPubs, None), s)"
| "yearLoop e c (year # years) filteredPubs s =
     (case publicationsCount e c (yearFilters c year) s of
        ((totalCount, Some err), s1) \<Rightarrow> Some (([], Some err), s1)
      | ((totalCount, None), s1) \<Rightarrow>
          if totalCount = 0 then yearLoop e c years filteredPubs s1
          else
            (case fetchLoop e c (yearFilters c year) totalCount 0 filteredPubs s1 of
               None \<Rightarrow> None
             | Some ((currentCount, pubs', Some err), s2) \<Rightarrow> Some (([], Some err), s2)
             | Some ((currentCount, pubs', None), s2) \<Rightarrow>
                 if currentCount > totalCount
                 then Some (([], Some (TooManyPublications totalCount currentCount)), s2)
                 else yearLoop e c years pubs' s2))"

definition PublicationSearch ::
  "env \<Rightarrow> CatalogInfo \<Rightarrow> world \<Rightarrow> ((PublicationInfo list \<times> error option) \<times> world) option" where
  "PublicationSearch e c s =
     (if Author c = [] \<or> Media c = []
      then Some (([], Some (ArgumentsNull (Author c) (Media c))), s)
      else yearLoop e c [''unknown'', yearFilter e] [] s)"

subsection \<open>The caller\<close>

text \<open>\<^verbatim>\<open>Config\<close> and \<^verbatim>\<open>AuthorInfo\<close> of \<^verbatim>\<open>booklist/config.go\<close>.\<close>

record AuthorInfo =
  Firstname :: string
  Lastname :: string
  author_Media :: string

record Config =
  cfg_URL :: string
  cfg_Media :: string
  Authors :: "AuthorInfo list"

definition DefaultMediaType :: string where
  "DefaultMediaType = ''Book''"

text \<open>
  \<^verbatim>\<open>printSearchResults\<close>, without its output: the loop over the authors, from the
  author at the head of the list on, with the default media type computed before the
  loop. It returns the error (\<open>None\<close> is nil).
\<close>

fun authorLoop ::
  "env \<Rightarrow> Config \<Rightarrow> string \<Rightarrow> AuthorInfo list \<Rightarrow> world \<Rightarrow> (error option \<times> world) option" where
  "authorLoop e config defaultMedia [] s = Some (None, s)"
| "authorLoop e config defaultMedia (authorInfo # rest) s =
     (let authorName = Lastname authorInfo @ '', '' @ Firstname authorInfo;
          media = (if author_Media authorInfo \<noteq> [] then author_Media authorInfo
                   else defaultMedia);
          c = \<lparr>URL = cfg_URL config, Author = authorName, Media = media\<rparr>
      in case PublicationSearch e c s of
           None \<Rightarrow> None
         | Some ((results, Some err), s') \<Rightarrow> Some (Some err, s')
         | Some ((results, None), s') \<Rightarrow> authorLoop e config defaultMedia rest s')"

definition printSearchResults ::
  "env \<Rightarrow> Config \<Rightarrow> world \<Rightarrow> (error option \<times> world) option" where
  "printSearchResults e config s =
     (let defaultMedia = (if cfg_Media config = [] then cfg_Media config
                          else DefaultMediaType)
      in authorLoop e config defaultMedia (Authors config) s)"

subsection \<open>Notions used in the statements\<close>

text \<open>The state of a process that has not sent a request yet.\<close>

definition startWorld :: world where
  "startWorld = \<lparr>timestampIncrement = 1, clockReads = 0, sent = []\<rparr>"

text \<open>The resources in the reply to request number \<open>i\<close>; none if the request failed.\<close>

definition pageAt :: "env \<Rightarrow> nat \<Rightarrow> resourceInfo list" where
  "pageAt e i = (case net e i of Answered status (Some p) \<Rightarrow> resources p | _ \<Rightarrow> [])"

text \<open>Request number \<open>i\<close> is answered with status 200, success and a total of 0.\<close>

definition zeroCountAt :: "env \<Rightarrow> nat \<Rightarrow> bool" where
  "zeroCountAt e i =
     (case net e i of
        Answered status (Some p) \<Rightarrow> status = 200 \<and> success p \<and> totalHits p = 0
      | _ \<Rightarrow> False)"

text \<open>Request number \<open>i\<close> is answered with status 200 and a success flag that is false.\<close>

definition failedCountAt :: "env \<Rightarrow> nat \<Rightarrow> bool" where
  "failedCountAt e i =
     (case net e i of
        Answered status (Some p) \<Rightarrow> status = 200 \<and> \<not> success p
      | _ \<Rightarrow> False)"

text \<open>A request for an endpoint of the catalog \<open>c\<close> that carries the given filters.\<close>

definition requestTo :: "CatalogInfo \<Rightarrow> string \<Rightarrow> facetFilter list \<Rightarrow> request \<Rightarrow> bool" where
  "requestTo c endpt filters r \<longleftrightarrow>
     parsedFrom (reqURL r) = URL c @ endpt \<and> FacetFilters (Body r) = filters"

text \<open>
  The local filter in the words of the specification: a resource is kept when its
  \<^verbatim>\<open>shortAuthor\<close> is the string \<open>Author c\<close>; what is kept of it are its format and its
  title, each \<^verbatim>\<open>Unknown\<close> when it is not a string. \<open>kept e c i j\<close> is what is kept of the replies
  to the requests \<open>i\<close> up to \<open>j - 1\<close>, in this order.
\<close>

definition matchesAuthor :: "CatalogInfo \<Rightarrow> resourceInfo \<Rightarrow> bool" where
  "matchesAuthor c p \<longleftrightarrow> p ''shortAuthor'' = Some (JString (Author c))"

definition normalized :: "resourceInfo \<Rightarrow> PublicationInfo" where
  "normalized p =
     \<lparr>pub_Media = (case p ''format'' of Some (JString v) \<Rightarrow> v | _ \<Rightarrow> ''Unknown''),
      Publication = (case p ''shortTitle'' of Some (JString v) \<Rightarrow> v | _ \<Rightarrow> ''Unknown'')\<rparr>"

definition keptOfPage :: "CatalogInfo \<Rightarrow> resourceInfo list \<Rightarrow> PublicationInfo list" where
  "keptOfPage c page = map normalized (filter (matchesAuthor c) page)"

definition kept :: "env \<Rightarrow> CatalogInfo \<Rightarrow> nat \<Rightarrow> nat \<Rightarrow> PublicationInfo list" where
  "kept e c i j = concat (map (\<lambda>k. keptOfPage c (pageAt e k)) [i..<j])"

text \<open>
  The requests of one round of the loop over the years: none, or the count request
  followed by fetch requests only, all with the filters of the year.
\<close>

definition bucketTrace :: "CatalogInfo \<Rightarrow> string \<Rightarrow> request list \<Rightarrow> bool" where
  "bucketTrace c year b \<longleftrightarrow>
     (case b of [] \<Rightarrow> True
      | r # rs \<Rightarrow> requestTo c ''search/count'' (yearFilters c year) r
                 \<and> list_all (requestTo c ''search'' (yearFilters c year)) rs)"



section \<open>Properties\<close>

subsection \<open>The local filter\<close>

lemma asString_Some: "asString v = Some a \<longleftrightarrow> v = Some (JString a)"
  by (cases v rule: asString.cases) auto

lemma asString_None: "asString v = None \<longleftrightarrow> (\<forall>a. v \<noteq> Some (JString a))"
  by (cases v rule: asString.cases) auto

lemma asString_default:
  "(case asString v of None \<Rightarrow> d | Some w \<Rightarrow> w) = (case v of Some (JString w) \<Rightarrow> w | _ \<Rightarrow> d)"
  by (cases v rule: asString.cases) auto

lemma applyLocalFilters_append:
  "applyLocalFilters c (xs @ ys) acc = applyLocalFilters c ys (applyLocalFilters c xs acc)"
  by (induction xs arbitrary: acc) (auto split: option.splits simp: Let_def)

lemma applyLocalFilters_acc:
  "applyLocalFilters c xs acc = acc @ applyLocalFilters c xs []"
proof (induction xs arbitrary: acc)
  case Nil
  show ?case by simp
next
  case (Cons p ps)
  show ?case
    using Cons.IH [of acc] Cons.IH [of "acc @ [x]" for x] Cons.IH [of "[x]" for x]
    by (simp split: option.splits add: Let_def)
qed

lemma applyLocalFilters_mid:
  "applyLocalFilters c (before @ p # after) acc
     = applyLocalFilters c before acc @ applyLocalFilters c [p] [] @ applyLocalFilters c after []"
proof -
  have "applyLocalFilters c (before @ [p] @ after) acc
          = applyLocalFilters c after (applyLocalFilters c [p] (applyLocalFilters c before acc))"
    by (simp only: applyLocalFilters_append)
  also have "\<dots> = applyLocalFilters c [p] (applyLocalFilters c before acc)
                     @ applyLocalFilters c after []"
    by (rule applyLocalFilters_acc)
  also have "applyLocalFilters c [p] (applyLocalFilters c before acc)
               = applyLocalFilters c before acc @ applyLocalFilters c [p] []"
    by (rule applyLocalFilters_acc)
  finally show ?thesis by simp
qed

lemma applyLocalFilters_keptOfPage: "applyLocalFilters c page [] = keptOfPage c page"
proof (induction page)
  case Nil
  show ?case by (simp add: keptOfPage_def)
next
  case (Cons p ps)
  have "applyLocalFilters c (p # ps) [] = applyLocalFilters c [p] [] @ applyLocalFilters c ps []"
    using applyLocalFilters_mid [of c "[]" p ps "[]"] by simp
  moreover have "applyLocalFilters c [p] [] = keptOfPage c [p]"
  proof (cases "asString (p ''shortAuthor'')")
    case None
    then have "\<not> matchesAuthor c p"
      by (simp add: asString_None matchesAuthor_def)
    with None show ?thesis by (simp add: keptOfPage_def)
  next
    case (Some a)
    then have "matchesAuthor c p \<longleftrightarrow> Author c = a"
      by (auto simp: asString_Some matchesAuthor_def)
    with Some show ?thesis
      by (simp add: keptOfPage_def normalized_def asString_default)
  qed
  ultimately show ?case
    using Cons.IH by (simp add: keptOfPage_def)
qed

text \<open>
  C3. Whatever stands before and after it on the page, a resource without a string
  under \<^verbatim>\<open>shortAuthor\<close> adds nothing to the results; a resource whose \<^verbatim>\<open>shortAuthor\<close>
  is exactly the author of the query adds one entry, with its format and its title,
  each replaced by \<^verbatim>\<open>Unknown\<close> when it is missing; a resource with any other author
  string adds nothing.
\<close>

theorem local_filter_per_record:
  "((\<forall>a. p ''shortAuthor'' \<noteq> Some (JString a)) \<longrightarrow>
      applyLocalFilters c (before @ p # after) acc
        = applyLocalFilters c before acc @ applyLocalFilters c after [])
   \<and> (q ''shortAuthor'' = Some (JString (Author c)) \<longrightarrow>
      applyLocalFilters c (before @ q # after) acc
        = applyLocalFilters c before acc
          @ [\<lparr>pub_Media = (case q ''format'' of Some (JString v) \<Rightarrow> v | _ \<Rightarrow> ''Unknown''),
               Publication = (case q ''shortTitle'' of Some (JString v) \<Rightarrow> v | _ \<Rightarrow> ''Unknown'')\<rparr>]
          @ applyLocalFilters c after [])
   \<and> (r ''shortAuthor'' = Some (JString a) \<and> a \<noteq> Author c \<longrightarrow>
      applyLocalFilters c (before @ r # after) acc
        = applyLocalFilters c before acc @ applyLocalFilters c after [])"
proof (intro conjI impI)
  assume "\<forall>a. p ''shortAuthor'' \<noteq> Some (JString a)"
  then have "asString (p ''shortAuthor'') = None"
    by (simp add: asString_None)
  then have "applyLocalFilters c [p] [] = []" by simp
  then show "applyLocalFilters c (before @ p # after) acc
        = applyLocalFilters c before acc @ applyLocalFilters c after []"
    by (simp add: applyLocalFilters_mid)
next
  assume "q ''shortAuthor'' = Some (JString (Author c))"
  then have "applyLocalFilters c [q] []
     = [\<lparr>pub_Media = (case q ''format'' of Some (JString v) \<Rightarrow> v | _ \<Rightarrow> ''Unknown''),
         Publication = (case q ''shortTitle'' of Some (JString v) \<Rightarrow> v | _ \<Rightarrow> ''Unknown'')\<rparr>]"
    by (simp add: asString_default)
  then show "applyLocalFilters c (before @ q # after) acc
        = applyLocalFilters c before acc
          @ [\<lparr>pub_Media = (case q ''format'' of Some (JString v) \<Rightarrow> v | _ \<Rightarrow> ''Unknown''),
               Publication = (case q ''shortTitle'' of Some (JString v) \<Rightarrow> v | _ \<Rightarrow> ''Unknown'')\<rparr>]
          @ applyLocalFilters c after []"
    by (simp add: applyLocalFilters_mid)
next
  assume "r ''shortAuthor'' = Some (JString a) \<and> a \<noteq> Author c"
  then have "applyLocalFilters c [r] [] = []" by auto
  then show "applyLocalFilters c (before @ r # after) acc
        = applyLocalFilters c before acc @ applyLocalFilters c after []"
    by (simp add: applyLocalFilters_mid)
qed

theorem local_filter_per_record_witness:
  "applyLocalFilters \<lparr>URL = ''u'', Author = ''Grafton, Sue'', Media = ''Book''\<rparr>
     [[''format'' \<mapsto> JString ''Book'', ''shortTitle'' \<mapsto> JString ''Cookbook'']] []
     = []
   \<and> applyLocalFilters \<lparr>URL = ''u'', Author = ''Grafton, Sue'', Media = ''Book''\<rparr>
     [[''shortAuthor'' \<mapsto> JString ''Grafton, Sue'']] []
     = [\<lparr>pub_Media = ''Unknown'', Publication = ''Unknown''\<rparr>]
   \<and> applyLocalFilters \<lparr>URL = ''u'', Author = ''Grafton, Sue'', Media = ''Book''\<rparr>
     [[''shortAuthor'' \<mapsto> JString ''Grafton, Sue L.'', ''shortTitle'' \<mapsto> JString ''X'']] []
     = []"
  using local_filter_per_record
    [of "[''format'' \<mapsto> JString ''Book'', ''shortTitle'' \<mapsto> JString ''Cookbook'']"
        "\<lparr>URL = ''u'', Author = ''Grafton, Sue'', Media = ''Book''\<rparr>" "[]" "[]" "[]"
        "[''shortAuthor'' \<mapsto> JString ''Grafton, Sue'']"
        "[''shortAuthor'' \<mapsto> JString ''Grafton, Sue L.'', ''shortTitle'' \<mapsto> JString ''X'']"
        "''Grafton, Sue L.''"]
  by simp

subsection \<open>Validation of the query\<close>

text \<open>
  C2. With an empty author name or an empty media type, \<^verbatim>\<open>PublicationSearch\<close> returns
  a nil list and the error that prints both fields, the empty one among them, and leaves
  the state as it was: no request is sent and no token is drawn.
\<close>

theorem empty_field_rejected_before_io:
  "Author c = [] \<or> Media c = [] \<Longrightarrow>
   PublicationSearch e c s = Some (([], Some (ArgumentsNull (Author c) (Media c))), s)"
  by (simp add: PublicationSearch_def)

theorem empty_field_rejected_before_io_witness:
  "(Author \<lparr>URL = ''https://catalog.library.loudoun.gov/'', Author = [], Media = ''Book''\<rparr> = []
      \<or> Media \<lparr>URL = ''https://catalog.library.loudoun.gov/'', Author = [], Media = ''Book''\<rparr> = [])
   \<and> PublicationSearch
        \<lparr>yearFilter = ''2024'', urlParse = (\<lambda>u. True), now = (\<lambda>k. 0), net = (\<lambda>i. Failed)\<rparr>
        \<lparr>URL = ''https://catalog.library.loudoun.gov/'', Author = [], Media = ''Book''\<rparr>
        startWorld
      = Some (([], Some (ArgumentsNull [] ''Book'')), startWorld)"
  using empty_field_rejected_before_io
    [of "\<lparr>URL = ''https://catalog.library.loudoun.gov/'', Author = [], Media = ''Book''\<rparr>"
        "\<lparr>yearFilter = ''2024'', urlParse = (\<lambda>u. True), now = (\<lambda>k. 0), net = (\<lambda>i. Failed)\<rparr>"
        startWorld]
  by simp

subsection \<open>The media type of an author\<close>

text \<open>
  C9. The code does not take the media type of the configuration as the default: the
  test before the loop of \<^verbatim>\<open>printSearchResults\<close> is inverted. With a configuration that
  names no media type at all, the author is searched with the empty media type, and the
  search is refused, where the claim names \<^verbatim>\<open>Book\<close>.
\<close>

theorem default_media_type_lost:
  "printSearchResults e
     \<lparr>cfg_URL = ''https://catalog.library.loudoun.gov/'', cfg_Media = [],
      Authors = [\<lparr>Firstname = ''Sue'', Lastname = ''Grafton'', author_Media = []\<rparr>]\<rparr> s
   = Some (Some (ArgumentsNull ''Grafton, Sue'' []), s)"
  by (simp add: printSearchResults_def PublicationSearch_def)

subsection \<open>Requests and replies of the search\<close>

lemma issueRequest_cases:
  assumes "issueRequest e c endpt filters s = (r, s')"
  shows "(\<not> urlParse e (URL c @ endpt) \<and> s' = s \<and> r = Inl (ParseError (URL c @ endpt)))
       \<or> (urlParse e (URL c @ endpt)
          \<and> (\<exists>req. sent s' = sent s @ [req] \<and> requestTo c endpt filters req)
          \<and> (case r of
                Inr p \<Rightarrow> net e (length (sent s)) = Answered 200 (Some p)
              | Inl err \<Rightarrow> \<forall>p. net e (length (sent s)) \<noteq> Answered 200 (Some p)))"
  using assms
  by (auto simp: issueRequest_def makeTimestamp_def requestTo_def Let_def
           split: if_splits reply.splits option.splits)

lemma publicationsCount_cases:
  assumes "publicationsCount e c filters s = ((t, err), s')"
  shows "(\<not> urlParse e (URL c @ ''search/count'') \<and> s' = s \<and> err \<noteq> None)
       \<or> (urlParse e (URL c @ ''search/count'')
          \<and> (\<exists>req. sent s' = sent s @ [req] \<and> requestTo c ''search/count'' filters req)
          \<and> (err = None \<longrightarrow>
                (\<exists>p. net e (length (sent s)) = Answered 200 (Some p) \<and> success p \<and> totalHits p = t))
          \<and> (err \<noteq> None \<longrightarrow>
                (\<forall>p. net e (length (sent s)) = Answered 200 (Some p) \<longrightarrow> \<not> success p)))"
proof -
  obtain r s1 where ir: "issueRequest e c ''search/count'' filters s = (r, s1)"
    by (cases "issueRequest e c ''search/count'' filters s")
  from issueRequest_cases [OF ir] assms ir show ?thesis
    by (auto simp: publicationsCount_def split: sum.splits if_splits)
qed

lemma publications_cases:
  assumes "publications e c filters s = ((pubs, err), s')"
  shows "(\<not> urlParse e (URL c @ ''search'') \<and> s' = s \<and> err \<noteq> None)
       \<or> (urlParse e (URL c @ ''search'')
          \<and> (\<exists>req. sent s' = sent s @ [req] \<and> requestTo c ''search'' filters req)
          \<and> (err = None \<longrightarrow> pubs = pageAt e (length (sent s))))"
proof -
  obtain r s1 where ir: "issueRequest e c ''search'' filters s = (r, s1)"
    by (cases "issueRequest e c ''search'' filters s")
  from issueRequest_cases [OF ir] assms ir show ?thesis
    by (auto simp: publications_def pageAt_def split: sum.splits if_splits)
qed

lemma publications_error_nil:
  "publications e c filters s = ((pubs, Some err), s') \<Longrightarrow> pubs = []"
  by (auto simp: publications_def split: sum.splits prod.splits)

lemma kept_append: "i \<le> j \<Longrightarrow> j \<le> k \<Longrightarrow> kept e c i j @ kept e c j k = kept e c i k"
  unfolding kept_def
  by (metis concat_append map_append upt_add_eq_append le_Suc_ex)

lemma kept_single: "kept e c i (Suc i) = applyLocalFilters c (pageAt e i) []"
  by (simp add: kept_def applyLocalFilters_keptOfPage)

lemmas fetchLoop_induct = fetchLoop.raw_induct [rotated -1, consumes 1, case_names step]

lemma fetchLoop_trace:
  assumes "fetchLoop e c filters t n acc s = Some ((n', acc', err), s')"
  shows "\<exists>b. sent s' = sent s @ b
           \<and> (\<forall>r\<in>set b. requestTo c ''search'' filters r)
           \<and> (err = None \<longrightarrow>
                acc' = acc @ kept e c (length (sent s)) (length (sent s'))
                \<and> t \<le> n')"
proof -
  have "case y of ((n', acc', err), s') \<Rightarrow>
          \<exists>b. sent s' = sent s @ b
           \<and> (\<forall>r\<in>set b. requestTo c ''search'' filters r)
           \<and> (err = None \<longrightarrow>
                acc' = acc @ kept e c (length (sent s)) (length (sent s'))
                \<and> t \<le> n')"
    if "fetchLoop e c filters t n acc s = Some y" for y
    using that
  proof (induction e c filters t n acc s y rule: fetchLoop_induct)
    case (step loop e c filters t n acc s y)
    note 1 = step
    show ?case
    proof (cases "n < t")
      case False
      with 1(2) show ?thesis by (auto simp: kept_def)
    next
      case True
      obtain pubs perr s1 where p: "publications e c filters s = ((pubs, perr), s1)"
        by (metis prod.exhaust)
      show ?thesis
      proof (cases perr)
        case (Some err)
        with 1(2) True p have y: "y = ((n, acc, Some err), s1)" by simp
        from publications_cases [OF p] show ?thesis
          unfolding y by auto
      next
        case None
        with 1(2) True p
        have rec: "loop e c filters t (n + int (length pubs)) (applyLocalFilters c pubs acc) s1 = Some y"
          by simp
        from publications_cases [OF p] None
        obtain req where s1: "sent s1 = sent s @ [req]" "requestTo c ''search'' filters req"
          and pubs: "pubs = pageAt e (length (sent s))"
          by auto
        obtain n' acc' err s' where y: "y = ((n', acc', err), s')"
          by (metis prod.exhaust)
        from 1(1) [OF rec] have "\<exists>b. sent s' = sent s1 @ b
           \<and> (\<forall>r\<in>set b. requestTo c ''search'' filters r)
           \<and> (err = None \<longrightarrow>
                acc' = applyLocalFilters c pubs acc @ kept e c (length (sent s1)) (length (sent s'))
                \<and> t \<le> n')"
          unfolding y by simp
        then obtain b where b: "sent s' = sent s1 @ b"
            "\<forall>r\<in>set b. requestTo c ''search'' filters r"
            "err = None \<longrightarrow> acc' = applyLocalFilters c pubs acc @ kept e c (length (sent s1)) (length (sent s'))
                \<and> t \<le> n'"
          by blast
        have "sent s' = sent s @ (req # b)" using b(1) s1(1) by simp
        moreover have "\<forall>r\<in>set (req # b). requestTo c ''search'' filters r"
          using b(2) s1(2) by simp
        moreover have "err = None \<longrightarrow>
                acc' = acc @ kept e c (length (sent s)) (length (sent s')) \<and> t \<le> n'"
        proof
          assume en: "err = None"
          have "acc' = acc @ kept e c (length (sent s)) (Suc (length (sent s)))
                  @ kept e c (Suc (length (sent s))) (length (sent s'))"
            using b(3) en s1(1) pubs applyLocalFilters_acc [of c pubs acc]
            by (simp add: kept_single)
          moreover have "Suc (length (sent s)) \<le> length (sent s')"
            using b(1) s1(1) by simp
          ultimately show "acc' = acc @ kept e c (length (sent s)) (length (sent s')) \<and> t \<le> n'"
            using kept_append [of "length (sent s)" "Suc (length (sent s))" "length (sent s')" e c]
              b(3) en by simp
        qed
        ultimately show ?thesis unfolding y by blast
      qed
    qed
  qed
  from this [OF assms] show ?thesis by simp
qed

lemma yearLoop_error_nil:
  "yearLoop e c years acc s = Some ((pubs, Some err), s') \<Longrightarrow> pubs = []"
proof (induction years arbitrary: acc s)
  case Nil
  then show ?case by simp
next
  case (Cons year years)
  from Cons.prems show ?case
    by (auto split: prod.splits option.splits if_splits dest: Cons.IH)
qed

lemma yearLoop_append:
  "yearLoop e c before acc s = Some ((acc1, None), s1) \<Longrightarrow>
   yearLoop e c (before @ after) acc s = yearLoop e c after acc1 s1"
proof (induction before arbitrary: acc s)
  case Nil
  then show ?case by simp
next
  case (Cons year years)
  from Cons.prems show ?case
    by (auto split: prod.splits option.splits if_splits simp: Cons.IH)
qed

lemma yearLoop_step:
  assumes "yearLoop e c (year # years) acc s = Some (res, s')"
  shows "\<exists>b s1. sent s1 = sent s @ b \<and> bucketTrace c year b
           \<and> (b \<noteq> [] \<longleftrightarrow> urlParse e (URL c @ ''search/count''))
           \<and> ((\<exists>err. res = ([], Some err) \<and> s' = s1
                  \<and> \<not> (b \<noteq> [] \<and> zeroCountAt e (length (sent s))))
              \<or> (b \<noteq> [] 
                  \<and> yearLoop e c years (acc @ kept e c (Suc (length (sent s))) (length (sent s1))) s1
                      = Some (res, s')
                  \<and> (zeroCountAt e (length (sent s)) \<longrightarrow> length b = 1)))"
proof -
  obtain t cerr s1 where pc: "publicationsCount e c (yearFilters c year) s = ((t, cerr), s1)"
    by (metis prod.exhaust)
  note pcc = publicationsCount_cases [OF pc]
  show ?thesis
  proof (cases cerr)
    case (Some err)
    with assms pc have res: "res = ([], Some err)" "s' = s1" by auto
    from pcc Some show ?thesis
      unfolding res
      apply (elim disjE conjE exE)
       apply (rule exI [of _ "[]"], rule exI [of _ s1])
       apply (simp add: bucketTrace_def)
      subgoal for req
        apply (rule exI [of _ "[req]"], rule exI [of _ s1])
        apply (auto simp add: bucketTrace_def zeroCountAt_def split: reply.splits option.splits)
        done
      done
  next
    case None
    with pcc obtain req p where up: "urlParse e (URL c @ ''search/count'')"
      and s1: "sent s1 = sent s @ [req]"
      and req: "requestTo c ''search/count'' (yearFilters c year) req"
      and p: "net e (length (sent s)) = Answered 200 (Some p)" "success p" "totalHits p = t"
      by auto
    show ?thesis
    proof (cases "t = 0")
      case True
      with assms pc None have "yearLoop e c years acc s1 = Some (res, s')" by simp
      with s1 req up show ?thesis
        apply (intro exI [of _ "[req]"] exI [of _ s1])
        apply (simp add: bucketTrace_def kept_def)
        done
    next
      case False
      then have nz: "\<not> zeroCountAt e (length (sent s))"
        using p by (simp add: zeroCountAt_def)
      from assms pc None False
      obtain n acc' ferr s2 where
        fl: "fetchLoop e c (yearFilters c year) t 0 acc s1 = Some ((n, acc', ferr), s2)"
        by (auto split: option.splits)
      from fetchLoop_trace [OF fl] obtain b where
        b: "sent s2 = sent s1 @ b" "\<forall>r\<in>set b. requestTo c ''search'' (yearFilters c year) r"
           "ferr = None \<longrightarrow> acc' = acc @ kept e c (length (sent s1)) (length (sent s2)) \<and> t \<le> n"
        by blast
      have tr: "sent s2 = sent s @ (req # b)" "bucketTrace c year (req # b)"
        using b s1 req by (simp_all add: bucketTrace_def list_all_iff)
      show ?thesis
      proof (cases "ferr = None \<and> \<not> t < n")
        case True
        with assms pc None False fl b(3) s1
        have "yearLoop e c years (acc @ kept e c (Suc (length (sent s))) (length (sent s2))) s2
                = Some (res, s')"
          by simp
        with tr up nz show ?thesis
          by (intro exI [of _ "req # b"] exI [of _ s2]) simp
      next
        case False
        with assms pc None \<open>t \<noteq> 0\<close> fl have "\<exists>err. res = ([], Some err) \<and> s' = s2"
          by (cases ferr) auto
        with tr up nz show ?thesis
          by (intro exI [of _ "req # b"] exI [of _ s2]) simp
      qed
    qed
  qed
qed

lemma PublicationSearch_trace:
  assumes "Author c \<noteq> []" and "Media c \<noteq> []"
    and "PublicationSearch e c s = Some ((pubs, err), s')"
  shows "\<exists>b1 b2. sent s' = sent s @ b1 @ b2
           \<and> bucketTrace c ''unknown'' b1 \<and> bucketTrace c (yearFilter e) b2
           \<and> (err = None \<longrightarrow> b1 \<noteq> [] \<and> b2 \<noteq> []
                \<and> pubs = kept e c (Suc (length (sent s))) (length (sent s) + length b1)
                         @ kept e c (Suc (length (sent s) + length b1)) (length (sent s')))
           \<and> (b1 \<noteq> [] \<and> zeroCountAt e (length (sent s)) \<longrightarrow> length b1 = 1 \<and> b2 \<noteq> [])
           \<and> (b2 \<noteq> [] \<and> zeroCountAt e (length (sent s) + length b1)
                \<longrightarrow> length b2 = 1 \<and> err = None)"
proof -
  from assms have yl: "yearLoop e c [''unknown'', yearFilter e] [] s = Some ((pubs, err), s')"
    by (simp add: PublicationSearch_def)
  from yearLoop_step [OF yl] obtain b1 s1 where
    b1: "sent s1 = sent s @ b1" "bucketTrace c ''unknown'' b1"
        "b1 \<noteq> [] \<longleftrightarrow> urlParse e (URL c @ ''search/count'')"
    and alt1: "(\<exists>x. (pubs, err) = ([], Some x) \<and> s' = s1
                  \<and> \<not> (b1 \<noteq> [] \<and> zeroCountAt e (length (sent s))))
              \<or> (b1 \<noteq> []
                  \<and> yearLoop e c [yearFilter e] ([] @ kept e c (Suc (length (sent s))) (length (sent s1))) s1
                      = Some ((pubs, err), s')
                  \<and> (zeroCountAt e (length (sent s)) \<longrightarrow> length b1 = 1))"
    by blast
  from alt1 show ?thesis
  proof
    assume "\<exists>x. (pubs, err) = ([], Some x) \<and> s' = s1
                  \<and> \<not> (b1 \<noteq> [] \<and> zeroCountAt e (length (sent s)))"
    then obtain x where x: "err = Some x" "s' = s1"
      "\<not> (b1 \<noteq> [] \<and> zeroCountAt e (length (sent s)))"
      by blast
    have "sent s' = sent s @ b1 @ []" using b1(1) x(2) by simp
    moreover have "bucketTrace c (yearFilter e) []" by (simp add: bucketTrace_def)
    ultimately show ?thesis
      using b1(2) x(1,3) by blast
  next
    assume c1: "b1 \<noteq> []
                  \<and> yearLoop e c [yearFilter e] ([] @ kept e c (Suc (length (sent s))) (length (sent s1))) s1
                      = Some ((pubs, err), s')
                  \<and> (zeroCountAt e (length (sent s)) \<longrightarrow> length b1 = 1)"
    let ?acc1 = "[] @ kept e c (Suc (length (sent s))) (length (sent s1))"
    from c1 have yl2: "yearLoop e c [yearFilter e] ?acc1 s1 = Some ((pubs, err), s')" by blast
    from yearLoop_step [OF yl2] obtain b2 s2 where
      b2: "sent s2 = sent s1 @ b2" "bucketTrace c (yearFilter e) b2"
          "b2 \<noteq> [] \<longleftrightarrow> urlParse e (URL c @ ''search/count'')"
      and alt2: "(\<exists>x. (pubs, err) = ([], Some x) \<and> s' = s2
                  \<and> \<not> (b2 \<noteq> [] \<and> zeroCountAt e (length (sent s1))))
              \<or> (b2 \<noteq> []
                  \<and> yearLoop e c [] (?acc1 @ kept e c (Suc (length (sent s1))) (length (sent s2))) s2
                      = Some ((pubs, err), s')
                  \<and> (zeroCountAt e (length (sent s1)) \<longrightarrow> length b2 = 1))"
      by blast
    have ne1: "b1 \<noteq> []" and z1: "zeroCountAt e (length (sent s)) \<longrightarrow> length b1 = 1"
      using c1 by blast+
    have ne2: "b2 \<noteq> []" using b2(3) b1(3) ne1 by blast
    have len1: "length (sent s1) = length (sent s) + length b1" using b1(1) by simp
    have tr: "sent s2 = sent s @ b1 @ b2" using b1(1) b2(1) by simp
    from alt2 show ?thesis
    proof
      assume "\<exists>x. (pubs, err) = ([], Some x) \<and> s' = s2
                  \<and> \<not> (b2 \<noteq> [] \<and> zeroCountAt e (length (sent s1)))"
      then obtain x where x: "err = Some x" "s' = s2"
        "\<not> zeroCountAt e (length (sent s) + length b1)"
        using ne2 len1 by auto
      have "sent s' = sent s @ b1 @ b2" using tr x(2) by simp
      then show ?thesis
        using b1(2) b2(2) x(1,3) ne2 z1 by blast
    next
      assume "b2 \<noteq> []
                  \<and> yearLoop e c [] (?acc1 @ kept e c (Suc (length (sent s1))) (length (sent s2))) s2
                      = Some ((pubs, err), s')
                  \<and> (zeroCountAt e (length (sent s1)) \<longrightarrow> length b2 = 1)"
      then have r: "err = None" "s' = s2"
        "pubs = kept e c (Suc (length (sent s))) (length (sent s) + length b1)
                 @ kept e c (Suc (length (sent s) + length b1)) (length (sent s'))"
        and z2: "zeroCountAt e (length (sent s) + length b1) \<longrightarrow> length b2 = 1"
        using len1 by auto
      have "sent s' = sent s @ b1 @ b2" using tr r(2) by simp
      then show ?thesis
        using b1(2) b2(2) r(1,3) ne1 ne2 z1 z2 by blast
    qed
  qed
qed

lemma endpoints_differ: "u @ ''search/count'' \<noteq> u @ ''search''"
  by simp


lemma search_result:
  "\<not> Option.is_none x \<Longrightarrow> fst (the x) = r \<Longrightarrow> x = Some (r, snd (the x))"
  by (cases x) auto

lemma search_result_fst:
  "\<not> Option.is_none x \<Longrightarrow> fst (the x) = r \<Longrightarrow> map_option fst x = Some r"
  by (cases x) auto


subsection \<open>A count that is exceeded\<close>

text \<open>
  C1. \<^verbatim>\<open>PublicationSearch\<close> never returns a list together with an error. And when,
  in the round of any year, after the earlier rounds have gone through with the results
  \<open>acc\<close>, the count request reports \<open>expected\<close> and the loop of fetch requests ends with
  \<open>n\<close> resources counted and \<open>expected < n\<close>, the search returns the nil list and the
  error that names both numbers: \<open>acc\<close> and what the round added are dropped.
\<close>

theorem count_mismatch_discards_results:
  "(\<forall>pubs err s'. PublicationSearch e c s = Some ((pubs, Some err), s') \<longrightarrow> pubs = [])
   \<and> (Author c \<noteq> [] \<and> Media c \<noteq> []
      \<and> [''unknown'', yearFilter e] = before @ year # after
      \<and> yearLoop e c before [] s = Some ((acc, None), s1)
      \<and> publicationsCount e c (yearFilters c year) s1 = ((expected, None), s2)
      \<and> fetchLoop e c (yearFilters c year) expected 0 acc s2 = Some ((n, acc', None), s3)
      \<and> expected < n
      \<longrightarrow> PublicationSearch e c s = Some (([], Some (TooManyPublications expected n)), s3))"
proof (intro conjI allI impI)
  fix pubs err s'
  assume "PublicationSearch e c s = Some ((pubs, Some err), s')"
  then show "pubs = []"
    by (cases "Author c = [] \<or> Media c = []")
       (auto simp only: PublicationSearch_def if_True if_False option.inject prod.inject
             dest: yearLoop_error_nil)
next
  assume a: "Author c \<noteq> [] \<and> Media c \<noteq> []
      \<and> [''unknown'', yearFilter e] = before @ year # after
      \<and> yearLoop e c before [] s = Some ((acc, None), s1)
      \<and> publicationsCount e c (yearFilters c year) s1 = ((expected, None), s2)
      \<and> fetchLoop e c (yearFilters c year) expected 0 acc s2 = Some ((n, acc', None), s3)
      \<and> expected < n"
  have "expected \<noteq> 0"
  proof
    assume "expected = 0"
    with a have "n = 0" by (subst (asm) fetchLoop.simps) simp
    with a \<open>expected = 0\<close> show False by simp
  qed
  have "PublicationSearch e c s = yearLoop e c (before @ year # after) [] s"
    using a by (simp add: PublicationSearch_def)
  also have "\<dots> = yearLoop e c (year # after) acc s1"
    using a by (simp add: yearLoop_append)
  also have "\<dots> = Some (([], Some (TooManyPublications expected n)), s3)"
    using a \<open>expected \<noteq> 0\<close> by simp
  finally show "PublicationSearch e c s = Some (([], Some (TooManyPublications expected n)), s3)" .
qed

theorem count_mismatch_discards_results_witness:
  "map_option fst
     (PublicationSearch
        \<lparr>yearFilter = ''2024'', urlParse = (\<lambda>u. True), now = (\<lambda>k. 0),
         net = (\<lambda>i. if i = 0 \<or> i = 2
                      then Answered 200 (Some \<lparr>success = True, totalHits = 1, resources = []\<rparr>)
                    else if i = 1
                      then Answered 200 (Some \<lparr>success = False, totalHits = 0, resources =
                             [[''shortAuthor'' \<mapsto> JString ''Grafton, Sue'',
                               ''shortTitle'' \<mapsto> JString ''X'']]\<rparr>)
                    else Answered 200 (Some \<lparr>success = False, totalHits = 0, resources =
                             [[''shortAuthor'' \<mapsto> JString ''Grafton, Sue'',
                               ''shortTitle'' \<mapsto> JString ''Y''],
                              [''shortAuthor'' \<mapsto> JString ''Grafton, Sue'',
                               ''shortTitle'' \<mapsto> JString ''Z'']]\<rparr>))\<rparr>
        \<lparr>URL = ''https://catalog.library.loudoun.gov/'', Author = ''Grafton, Sue'',
         Media = ''Book''\<rparr>
        startWorld)
   = Some ([], Some (TooManyPublications 1 2))"
proof -
  let ?e = "\<lparr>yearFilter = ''2024'', urlParse = (\<lambda>u. True), now = (\<lambda>k. 0),
         net = (\<lambda>i. if i = 0 \<or> i = 2
                      then Answered 200 (Some \<lparr>success = True, totalHits = 1, resources = []\<rparr>)
                    else if i = 1
                      then Answered 200 (Some \<lparr>success = False, totalHits = 0, resources =
                             [[''shortAuthor'' \<mapsto> JString ''Grafton, Sue'',
                               ''shortTitle'' \<mapsto> JString ''X'']]\<rparr>)
                    else Answered 200 (Some \<lparr>success = False, totalHits = 0, resources =
                             [[''shortAuthor'' \<mapsto> JString ''Grafton, Sue'',
                               ''shortTitle'' \<mapsto> JString ''Y''],
                              [''shortAuthor'' \<mapsto> JString ''Grafton, Sue'',
                               ''shortTitle'' \<mapsto> JString ''Z'']]\<rparr>))\<rparr>"
  let ?c = "\<lparr>URL = ''https://catalog.library.loudoun.gov/'', Author = ''Grafton, Sue'',
         Media = ''Book''\<rparr>"
  let ?x = "\<lparr>pub_Media = ''Unknown'', Publication = ''X''\<rparr>"
  define s1 where "s1 = snd (the (yearLoop ?e ?c [''unknown''] [] startWorld))"
  define s2 where "s2 = snd (publicationsCount ?e ?c (yearFilters ?c ''2024'') s1)"
  define fl where "fl = the (fetchLoop ?e ?c (yearFilters ?c ''2024'') 1 0 [?x] s2)"
  have h: "Author ?c \<noteq> [] \<and> Media ?c \<noteq> []
      \<and> [''unknown'', yearFilter ?e] = [''unknown''] @ ''2024'' # []
      \<and> yearLoop ?e ?c [''unknown''] [] startWorld = Some (([?x], None), s1)
      \<and> publicationsCount ?e ?c (yearFilters ?c ''2024'') s1 = ((1, None), s2)
      \<and> fetchLoop ?e ?c (yearFilters ?c ''2024'') 1 0 [?x] s2
          = Some ((2, fst (snd (fst fl)), None), snd fl)
      \<and> (1 :: int) < 2"
    by (simp add: s1_def s2_def fl_def publicationsCount_def publications_def issueRequest_def
          makeTimestamp_def startWorld_def fetchLoop.simps Let_def)
  from count_mismatch_discards_results
         [of ?e ?c startWorld "[''unknown'']" "''2024''" "[]" "[?x]" s1 1 s2 2
             "fst (snd (fst fl))" "snd fl"] h
  have "PublicationSearch ?e ?c startWorld = Some (([], Some (TooManyPublications 1 2)), snd fl)"
    by blast
  then show ?thesis by simp
qed

subsection \<open>A count request that reports failure\<close>

text \<open>
  C5. When, in the round of any year, after the earlier rounds have gone through with the
  results \<open>acc\<close>, the count request is answered with a success flag that is false, the
  search returns the nil list and an error, and the count request is the last request
  sent: no fetch request follows, and no request of a later year.
\<close>

theorem count_failure_aborts_search:
  assumes "Author c \<noteq> []" and "Media c \<noteq> []"
    and "[''unknown'', yearFilter e] = before @ year # after"
    and "yearLoop e c before [] s = Some ((acc, None), s1)"
    and "urlParse e (URL c @ ''search/count'')"
    and "failedCountAt e (length (sent s1))"
  shows "\<exists>s' req. PublicationSearch e c s = Some (([], Some CountFailed), s')
           \<and> sent s' = sent s1 @ [req]
           \<and> requestTo c ''search/count'' (yearFilters c year) req"
proof -
  obtain t cerr s2 where pc: "publicationsCount e c (yearFilters c year) s1 = ((t, cerr), s2)"
    by (metis prod.exhaust)
  from assms(5,6) pc have cerr: "t = 0" "cerr = Some CountFailed"
    by (auto simp: publicationsCount_def issueRequest_def makeTimestamp_def failedCountAt_def
                   Let_def
             split: reply.splits option.splits if_splits prod.splits)
  from publicationsCount_cases [OF pc] assms(5) obtain req where
    req: "sent s2 = sent s1 @ [req]" "requestTo c ''search/count'' (yearFilters c year) req"
    by auto
  have "PublicationSearch e c s = yearLoop e c (before @ year # after) [] s"
    using assms(1-3) by (simp add: PublicationSearch_def)
  also have "\<dots> = yearLoop e c (year # after) acc s1"
    using assms(4) by (simp add: yearLoop_append)
  also have "\<dots> = Some (([], Some CountFailed), s2)"
    using pc cerr by simp
  finally show ?thesis using req by blast
qed

theorem count_failure_aborts_search_witness:
  "map_option (\<lambda>r. (fst r, length (sent (snd r))))
     (PublicationSearch
        \<lparr>yearFilter = ''2024'', urlParse = (\<lambda>u. True), now = (\<lambda>k. 0),
         net = (\<lambda>i. if i = 0
                      then Answered 200 (Some \<lparr>success = True, totalHits = 1, resources = []\<rparr>)
                    else if i = 1
                      then Answered 200 (Some \<lparr>success = False, totalHits = 0, resources =
                             [[''shortAuthor'' \<mapsto> JString ''Grafton, Sue'',
                               ''shortTitle'' \<mapsto> JString ''X'']]\<rparr>)
                    else Answered 200 (Some \<lparr>success = False, totalHits = 0, resources = []\<rparr>))\<rparr>
        \<lparr>URL = ''https://catalog.library.loudoun.gov/'', Author = ''Grafton, Sue'',
         Media = ''Book''\<rparr>
        startWorld)
   = Some (([], Some CountFailed), 3)"
proof -
  let ?e = "\<lparr>yearFilter = ''2024'', urlParse = (\<lambda>u. True), now = (\<lambda>k. 0),
         net = (\<lambda>i. if i = 0
                      then Answered 200 (Some \<lparr>success = True, totalHits = 1, resources = []\<rparr>)
                    else if i = 1
                      then Answered 200 (Some \<lparr>success = False, totalHits = 0, resources =
                             [[''shortAuthor'' \<mapsto> JString ''Grafton, Sue'',
                               ''shortTitle'' \<mapsto> JString ''X'']]\<rparr>)
                    else Answered 200 (Some \<lparr>success = False, totalHits = 0, resources = []\<rparr>))\<rparr>"
  let ?c = "\<lparr>URL = ''https://catalog.library.loudoun.gov/'', Author = ''Grafton, Sue'',
         Media = ''Book''\<rparr>"
  let ?x = "\<lparr>pub_Media = ''Unknown'', Publication = ''X''\<rparr>"
  define s1 where "s1 = snd (the (yearLoop ?e ?c [''unknown''] [] startWorld))"
  have h1: "yearLoop ?e ?c [''unknown''] [] startWorld = Some (([?x], None), s1)"
    by (simp add: s1_def publicationsCount_def publications_def issueRequest_def
          makeTimestamp_def startWorld_def fetchLoop.simps Let_def)
  have len: "length (sent s1) = 2"
    by (simp add: s1_def publicationsCount_def publications_def issueRequest_def
          makeTimestamp_def startWorld_def fetchLoop.simps Let_def)
  have h2: "failedCountAt ?e (length (sent s1))"
    by (simp add: len failedCountAt_def)
  from count_failure_aborts_search
         [of ?c ?e "[''unknown'']" "''2024''" "[]" startWorld "[?x]" s1] h1 h2
  obtain s' req where "PublicationSearch ?e ?c startWorld = Some (([], Some CountFailed), s')"
    "sent s' = sent s1 @ [req]"
    by auto
  then show ?thesis by (simp add: len)
qed

subsection \<open>Count requests and fetch requests of a year\<close>




subsection \<open>The order of the results\<close>

text \<open>
  C6. When the search returns without an error, its requests are the count request of the
  year \<^verbatim>\<open>unknown\<close> with the fetch requests of that year, then the count request of the
  current year with its fetch requests; and the list returned is what the local filter
  keeps of the replies to the fetch requests of \<^verbatim>\<open>unknown\<close>, in the order of the
  requests, followed by what it keeps of the replies to the fetch requests of the current
  year, in the order of the requests. Within a reply the order of the resources is kept
  (\<open>keptOfPage\<close>).
\<close>

theorem results_in_bucket_then_arrival_order:
  assumes "Author c \<noteq> []" and "Media c \<noteq> []"
    and "PublicationSearch e c s = Some ((pubs, None), s')"
  shows "\<exists>b1 b2. sent s' = sent s @ b1 @ b2
           \<and> b1 \<noteq> [] \<and> bucketTrace c ''unknown'' b1
           \<and> b2 \<noteq> [] \<and> bucketTrace c (yearFilter e) b2
           \<and> pubs = kept e c (Suc (length (sent s))) (length (sent s) + length b1)
                    @ kept e c (Suc (length (sent s) + length b1)) (length (sent s'))"
proof -
  have "\<exists>b1 b2. sent s' = sent s @ b1 @ b2
           \<and> bucketTrace c ''unknown'' b1 \<and> bucketTrace c (yearFilter e) b2
           \<and> (b1 \<noteq> [] \<and> b2 \<noteq> []
                \<and> pubs = kept e c (Suc (length (sent s))) (length (sent s) + length b1)
                         @ kept e c (Suc (length (sent s) + length b1)) (length (sent s')))"
    using PublicationSearch_trace [OF assms]
    apply (elim exE conjE)
    subgoal for b1 b2
      apply (rule exI [of _ b1], rule exI [of _ b2])
      apply (simp only: simp_thms)
      done
    done
  then obtain b1 b2 where "sent s' = sent s @ b1 @ b2"
     "bucketTrace c ''unknown'' b1" "bucketTrace c (yearFilter e) b2" "b1 \<noteq> []" "b2 \<noteq> []"
     "pubs = kept e c (Suc (length (sent s))) (length (sent s) + length b1)
                         @ kept e c (Suc (length (sent s) + length b1)) (length (sent s'))"
    by (elim exE conjE)
  then show ?thesis
    by (intro exI [of _ b1] exI [of _ b2] conjI)
qed

theorem results_in_bucket_then_arrival_order_witness:
  "map_option fst
     (PublicationSearch
        \<lparr>yearFilter = ''2024'', urlParse = (\<lambda>u. True), now = (\<lambda>k. 0),
         net = (\<lambda>i. if i = 0
                      then Answered 200 (Some \<lparr>success = True, totalHits = 3, resources = []\<rparr>)
                    else if i = 1
                      then Answered 200 (Some \<lparr>success = False, totalHits = 0, resources =
                             [[''shortAuthor'' \<mapsto> JString ''Grafton, Sue'',
                               ''format'' \<mapsto> JString ''Book'',
                               ''shortTitle'' \<mapsto> JString ''Y is for yesterday''],
                              [''shortAuthor'' \<mapsto> JString ''Grafton, Sue'',
                               ''shortTitle'' \<mapsto> JString ''X'']]\<rparr>)
                    else if i = 2
                      then Answered 200 (Some \<lparr>success = False, totalHits = 0, resources =
                             [[''shortAuthor'' \<mapsto> JString ''Grafton, Sue'',
                               ''format'' \<mapsto> JString ''Large Print'',
                               ''shortTitle'' \<mapsto> JString ''X'']]\<rparr>)
                    else if i = 3
                      then Answered 200 (Some \<lparr>success = True, totalHits = 2, resources = []\<rparr>)
                    else Answered 200 (Some \<lparr>success = False, totalHits = 0, resources =
                             [[''shortAuthor'' \<mapsto> JString ''Kinsey, M.'',
                               ''shortTitle'' \<mapsto> JString ''Notes''],
                              [''shortAuthor'' \<mapsto> JString ''Grafton, Sue'',
                               ''format'' \<mapsto> JString ''Book'',
                               ''shortTitle'' \<mapsto> JString ''A is for alibi'']]\<rparr>))\<rparr>
        \<lparr>URL = ''https://catalog.library.loudoun.gov/'', Author = ''Grafton, Sue'',
         Media = ''Book''\<rparr>
        startWorld)
   = Some ([\<lparr>pub_Media = ''Book'', Publication = ''Y is for yesterday''\<rparr>,
            \<lparr>pub_Media = ''Unknown'', Publication = ''X''\<rparr>,
            \<lparr>pub_Media = ''Large Print'', Publication = ''X''\<rparr>,
            \<lparr>pub_Media = ''Book'', Publication = ''A is for alibi''\<rparr>], None)"
proof -
  let ?e = "\<lparr>yearFilter = ''2024'', urlParse = (\<lambda>u. True), now = (\<lambda>k. 0),
         net = (\<lambda>i. if i = 0
                      then Answered 200 (Some \<lparr>success = True, totalHits = 3, resources = []\<rparr>)
                    else if i = 1
                      then Answered 200 (Some \<lparr>success = False, totalHits = 0, resources =
                             [[''shortAuthor'' \<mapsto> JString ''Grafton, Sue'',
                               ''format'' \<mapsto> JString ''Book'',
                               ''shortTitle'' \<mapsto> JString ''Y is for yesterday''],
                              [''shortAuthor'' \<mapsto> JString ''Grafton, Sue'',
                               ''shortTitle'' \<mapsto> JString ''X'']]\<rparr>)
                    else if i = 2
                      then Answered 200 (Some \<lparr>success = False, totalHits = 0, resources =
                             [[''shortAuthor'' \<mapsto> JString ''Grafton, Sue'',
                               ''format'' \<mapsto> JString ''Large Print'',
                               ''shortTitle'' \<mapsto> JString ''X'']]\<rparr>)
                    else if i = 3
                      then Answered 200 (Some \<lparr>success = True, totalHits = 2, resources = []\<rparr>)
                    else Answered 200 (Some \<lparr>success = False, totalHits = 0, resources =
                             [[''shortAuthor'' \<mapsto> JString ''Kinsey, M.'',
                               ''shortTitle'' \<mapsto> JString ''Notes''],
                              [''shortAuthor'' \<mapsto> JString ''Grafton, Sue'',
                               ''format'' \<mapsto> JString ''Book'',
                               ''shortTitle'' \<mapsto> JString ''A is for alibi'']]\<rparr>))\<rparr>"
  let ?c = "\<lparr>URL = ''https://catalog.library.loudoun.gov/'', Author = ''Grafton, Sue'',
         Media = ''Book''\<rparr>"
  have ok: "\<not> Option.is_none (PublicationSearch ?e ?c startWorld)"
    by code_simp
  have res: "fst (the (PublicationSearch ?e ?c startWorld))
      = ([\<lparr>pub_Media = ''Book'', Publication = ''Y is for yesterday''\<rparr>,
            \<lparr>pub_Media = ''Unknown'', Publication = ''X''\<rparr>,
            \<lparr>pub_Media = ''Large Print'', Publication = ''X''\<rparr>,
            \<lparr>pub_Media = ''Book'', Publication = ''A is for alibi''\<rparr>], None)"
    by code_simp
  note h = search_result [OF ok res]
  have "Author ?c \<noteq> []" "Media ?c \<noteq> []" by simp_all
  from results_in_bucket_then_arrival_order [OF this h]
  have "\<exists>b1 b2 :: request list. b1 \<noteq> [] \<and> b2 \<noteq> []"
    by blast
  then show ?thesis
    using search_result_fst [OF ok res] by blast
qed

subsection \<open>Termination of the loop of fetch requests\<close>






end
